theory Spec2Isabelle
  imports Main
begin

section \<open>Python values, exceptions and string conversion\<close>

text \<open>
  The module \<^verbatim>\<open>eralchemy/sqla.py\<close> reads attributes of SQLAlchemy objects and builds
  the intermediary records \<^verbatim>\<open>Column\<close>, \<^verbatim>\<open>Table\<close> and \<^verbatim>\<open>Relation\<close>. The only operation
  it applies to an attribute value is the string conversion \<^verbatim>\<open>unicode(x)\<close> (which is
  \<^verbatim>\<open>str\<close> on Python 3), and that call may raise. A raise is a value here: every function
  that can raise returns \<open>exc + 'a\<close>, with \<open>Inl\<close> carrying the exception.

  The handler in \<^verbatim>\<open>format_type\<close> distinguishes one exception class only, so an exception
  is either an instance of \<^verbatim>\<open>sqlalchemy.exc.CompileError\<close> (subclasses included, as
  \<^verbatim>\<open>except CompileError\<close> catches them) or anything else, kept with its description.
\<close>

datatype exc = CompileError | OtherError string

text \<open>
  A dynamically typed attribute value, as far as this module can observe it: either it is
  text already (a \<^verbatim>\<open>str\<close>, such as SQLAlchemy's \<^verbatim>\<open>quoted_name\<close>), or it is some other
  object (a type object, \<^verbatim>\<open>None\<close>, ...) given by the outcome of its string conversion.
\<close>

datatype pyobj = Text string | Obj "exc + string"

fun unicode :: "pyobj \<Rightarrow> exc + string" where
  "unicode (Text s) = Inr s"
| "unicode (Obj r) = r"

fun is_text :: "pyobj \<Rightarrow> bool" where
  "is_text (Text s) = True"
| "is_text (Obj r) = False"

text \<open>\<^verbatim>\<open>d.values()\<close> of a dictionary kept as an association list in iteration order.\<close>

definition dict_values :: "('k \<times> 'v) list \<Rightarrow> 'v list" where
  "dict_values d = map snd d"

text \<open>
  A list comprehension \<^verbatim>\<open>[f(x) for x in xs]\<close> whose body may raise: the elements are
  computed from left to right and the first exception ends the evaluation.
\<close>

fun comprehension :: "('a \<Rightarrow> exc + 'b) \<Rightarrow> 'a list \<Rightarrow> exc + 'b list" where
  "comprehension f [] = Inr []"
| "comprehension f (x # xs) =
     (case f x of
        Inl e \<Rightarrow> Inl e
      | Inr y \<Rightarrow> (case comprehension f xs of
                    Inl e \<Rightarrow> Inl e
                  | Inr ys \<Rightarrow> Inr (y # ys)))"

text \<open>
  The nested comprehension \<^verbatim>\<open>[f(y) for x in xs for y in g(x)]\<close>: the inner loop runs to
  its end for each element of the outer one, appending to the same result list.
\<close>

fun comprehension2 :: "('a \<Rightarrow> 'c list) \<Rightarrow> ('c \<Rightarrow> exc + 'b) \<Rightarrow> 'a list \<Rightarrow> exc + 'b list" where
  "comprehension2 g f [] = Inr []"
| "comprehension2 g f (x # xs) =
     (case comprehension f (g x) of
        Inl e \<Rightarrow> Inl e
      | Inr ys \<Rightarrow> (case comprehension2 g f xs of
                     Inl e \<Rightarrow> Inl e
                   | Inr zs \<Rightarrow> Inr (ys @ zs)))"

section \<open>The SQLAlchemy objects the module reads\<close>

text \<open>
  Only the attributes that the module reads are kept. A column points back to the table
  that owns it; of that table the module reads \<^verbatim>\<open>fullname\<close> only, so the reference is a
  record with that one field, which the full table record extends.
  \<^verbatim>\<open>table.c._data\<close> is the ordered dictionary of the table's columns, \<^verbatim>\<open>metadata.tables\<close>
  the dictionary of tables; \<^verbatim>\<open>table.foreign_keys\<close> is listed in its iteration order.
  The objects are well formed: every attribute read here exists and is already resolved
  (\<^verbatim>\<open>fk.column\<close> is the referred column), the two flags are booleans.
\<close>

record table_ref =
  fullname :: pyobj

record sqla_column =
  name :: pyobj
  type :: pyobj
  nullable :: bool
  primary_key :: bool
  table :: table_ref

record foreign_key =
  parent :: sqla_column
  column :: sqla_column

record sqla_table = table_ref +
  c_data :: "(string \<times> sqla_column) list"
  foreign_keys :: "foreign_key list"

record sqla_metadata =
  tables :: "(string \<times> sqla_table) list"

record declarative_base =
  metadata :: sqla_metadata

text \<open>
  A Python 3 \<^verbatim>\<open>str\<close> on which the module works character by character: the sequence
  of its Unicode code points. \<open>literal\<close> gives the code points of an ASCII literal of the
  source text.
\<close>

type_synonym pystr = "nat list"

definition literal :: "string \<Rightarrow> pystr" where
  "literal s = map of_char s"

text \<open>A class object; \<open>cls_name\<close> is its \<^verbatim>\<open>__name__\<close>.\<close>

record pyclass =
  cls_name :: pystr

section \<open>The intermediary records\<close>

text \<open>
  \<^verbatim>\<open>eralchemy.models\<close> supplies the three constructors; each stores its keyword arguments.
  The field types are those of the values this module stores: a column's name and a
  table's name are attribute values passed on as they are, a column's type is whatever
  the type formatter returned, and the four fields of a relation are strings.
\<close>

record 'a Column =
  name :: pyobj
  type :: 'a
  is_key :: bool

record Table =
  name :: pyobj
  columns :: "string Column list"

record Relation =
  left_col :: string
  right_col :: string
  left_cardinality :: string
  right_cardinality :: string

section \<open>The translation functions\<close>

definition format_type :: "pyobj \<Rightarrow> exc + string" where
  "format_type typ =
     (case unicode typ of
        Inr s \<Rightarrow> Inr s
      | Inl e \<Rightarrow> (case e of
                    CompileError \<Rightarrow> Inr ''Null''
                  | OtherError m \<Rightarrow> Inl (OtherError m)))"

definition format_name :: "pyobj \<Rightarrow> exc + string" where
  "format_name nm = unicode nm"

definition relation_to_intermediary :: "foreign_key \<Rightarrow> exc + Relation" where
  "relation_to_intermediary fk =
     (let parent = parent fk;
          referred = column fk
      in case format_name (fullname (table parent)) of
           Inl e \<Rightarrow> Inl e
         | Inr l \<Rightarrow>
             (case format_name (fullname (table referred)) of
                Inl e \<Rightarrow> Inl e
              | Inr r \<Rightarrow>
                  Inr \<lparr>left_col = l,
                       right_col = r,
                       left_cardinality = (if nullable parent then ''*'' else ''+''),
                       right_cardinality = (if nullable referred then ''?'' else ''1'')\<rparr>))"

text \<open>
  The type formatter is a parameter of \<^verbatim>\<open>column_to_intermediary\<close>, with \<^verbatim>\<open>format_type\<close>
  as its default; \<^verbatim>\<open>table_to_intermediary\<close> calls it with the default.
\<close>

definition column_to_intermediary ::
    "sqla_column \<Rightarrow> (pyobj \<Rightarrow> exc + 'a) \<Rightarrow> exc + 'a Column" where
  "column_to_intermediary col type_formatter =
     (case type_formatter (sqla_column.type col) of
        Inl e \<Rightarrow> Inl e
      | Inr t \<Rightarrow> Inr \<lparr>Column.name = sqla_column.name col,
                       type = t,
                       is_key = primary_key col\<rparr>)"

definition table_to_intermediary :: "sqla_table \<Rightarrow> exc + Table" where
  "table_to_intermediary tbl =
     (case comprehension (\<lambda>col. column_to_intermediary col format_type)
             (dict_values (c_data tbl)) of
        Inl e \<Rightarrow> Inl e
      | Inr cols \<Rightarrow> Inr \<lparr>Table.name = fullname tbl, columns = cols\<rparr>)"

definition metadata_to_intermediary ::
    "sqla_metadata \<Rightarrow> exc + (Table list \<times> Relation list)" where
  "metadata_to_intermediary md =
     (case comprehension table_to_intermediary (dict_values (tables md)) of
        Inl e \<Rightarrow> Inl e
      | Inr tbls \<Rightarrow>
          (case comprehension2 foreign_keys relation_to_intermediary
                  (dict_values (tables md)) of
             Inl e \<Rightarrow> Inl e
           | Inr relationships \<Rightarrow> Inr (tbls, relationships)))"

definition declarative_to_intermediary ::
    "declarative_base \<Rightarrow> exc + (Table list \<times> Relation list)" where
  "declarative_to_intermediary base = metadata_to_intermediary (metadata base)"

text \<open>
  \<^verbatim>\<open>str.lower\<close> is a builtin of Python, not code of this module, and its Unicode case
  mapping is not reproduced here (it need not keep the length, and it is not a map over
  the single characters): the builtin is the parameter \<open>str_lower\<close>.
\<close>

definition name_for_scalar_relationship ::
    "(pystr \<Rightarrow> pystr) \<Rightarrow> 'b \<Rightarrow> pyclass \<Rightarrow> pyclass \<Rightarrow> 'c \<Rightarrow> pystr" where
  "name_for_scalar_relationship str_lower base local_cls referred_cls constraint =
     (let name = str_lower (cls_name referred_cls) @ literal ''_ref'' in name)"

text \<open>
  What \<^verbatim>\<open>str.lower\<close> does to a single ASCII code point: the capital letters \<^verbatim>\<open>A\<close> to
  \<^verbatim>\<open>Z\<close> (65 to 90) move to the small ones, every other one stays. On a \<^verbatim>\<open>str\<close> of ASCII
  code points only, the builtin applies this to each of them.
\<close>

definition ascii_lower :: "nat \<Rightarrow> nat" where
  "ascii_lower c = (if 65 \<le> c \<and> c \<le> 90 then c + 32 else c)"

section \<open>A sample schema\<close>

text \<open>
  Two tables: \<^verbatim>\<open>users\<close> with an integer primary key \<^verbatim>\<open>id\<close> and a nullable string
  \<^verbatim>\<open>name\<close>, and \<^verbatim>\<open>orders\<close> with an integer primary key \<^verbatim>\<open>id\<close> and a not-null integer
  \<^verbatim>\<open>user_id\<close> that references \<^verbatim>\<open>users.id\<close>. The type objects are not text; their
  string conversions are \<^verbatim>\<open>INTEGER\<close> and \<^verbatim>\<open>VARCHAR\<close>. \<open>shop_tables\<close> and
  \<open>shop_relations\<close> are the expected translation of the whole schema.
\<close>

definition integer_type :: pyobj where
  "integer_type = Obj (Inr ''INTEGER'')"

definition varchar_type :: pyobj where
  "varchar_type = Obj (Inr ''VARCHAR'')"

definition users_id :: sqla_column where
  "users_id = \<lparr>sqla_column.name = Text ''id'', type = integer_type, nullable = False,
                primary_key = True, table = \<lparr>fullname = Text ''users''\<rparr>\<rparr>"

definition users_name :: sqla_column where
  "users_name = \<lparr>sqla_column.name = Text ''name'', type = varchar_type, nullable = True,
                  primary_key = False, table = \<lparr>fullname = Text ''users''\<rparr>\<rparr>"

definition orders_id :: sqla_column where
  "orders_id = \<lparr>sqla_column.name = Text ''id'', type = integer_type, nullable = False,
                 primary_key = True, table = \<lparr>fullname = Text ''orders''\<rparr>\<rparr>"

definition orders_user_id :: sqla_column where
  "orders_user_id = \<lparr>sqla_column.name = Text ''user_id'', type = integer_type,
                      nullable = False, primary_key = False,
                      table = \<lparr>fullname = Text ''orders''\<rparr>\<rparr>"

definition orders_user_fk :: foreign_key where
  "orders_user_fk = \<lparr>parent = orders_user_id, column = users_id\<rparr>"

definition users_table :: sqla_table where
  "users_table = \<lparr>fullname = Text ''users'',
                   c_data = [(''id'', users_id), (''name'', users_name)],
                   foreign_keys = []\<rparr>"

definition orders_table :: sqla_table where
  "orders_table = \<lparr>fullname = Text ''orders'',
                    c_data = [(''id'', orders_id), (''user_id'', orders_user_id)],
                    foreign_keys = [orders_user_fk]\<rparr>"

definition shop_metadata :: sqla_metadata where
  "shop_metadata = \<lparr>tables = [(''users'', users_table), (''orders'', orders_table)]\<rparr>"

definition users_translated :: Table where
  "users_translated =
     \<lparr>Table.name = Text ''users'',
      columns = [\<lparr>Column.name = Text ''id'', type = ''INTEGER'', is_key = True\<rparr>,
                 \<lparr>Column.name = Text ''name'', type = ''VARCHAR'', is_key = False\<rparr>]\<rparr>"

definition orders_translated :: Table where
  "orders_translated =
     \<lparr>Table.name = Text ''orders'',
      columns = [\<lparr>Column.name = Text ''id'', type = ''INTEGER'', is_key = True\<rparr>,
                 \<lparr>Column.name = Text ''user_id'', type = ''INTEGER'', is_key = False\<rparr>]\<rparr>"

definition shop_tables :: "Table list" where
  "shop_tables = [users_translated, orders_translated]"

definition shop_relations :: "Relation list" where
  "shop_relations =
     [\<lparr>left_col = ''orders'', right_col = ''users'',
       left_cardinality = ''+'', right_cardinality = ''1''\<rparr>]"

text \<open>
  A fragment of \<^verbatim>\<open>str.lower\<close>, enough for the sample class names: the ASCII code
  points, \<^verbatim>\<open>U+00C9\<close> (201, which becomes 233) and \<^verbatim>\<open>U+0130\<close> (304, which becomes the two
  code points 105 and 775).
\<close>

definition sample_lower_point :: "nat \<Rightarrow> pystr" where
  "sample_lower_point c =
     (if c = 304 then [105, 775] else if c = 201 then [233] else [ascii_lower c])"

definition sample_lower :: "pystr \<Rightarrow> pystr" where
  "sample_lower s = concat (map sample_lower_point s)"

section \<open>Helper lemmas\<close>

lemmas shop_defs =
  integer_type_def varchar_type_def users_id_def users_name_def orders_id_def
  orders_user_id_def orders_user_fk_def users_table_def orders_table_def
  shop_metadata_def users_translated_def orders_translated_def shop_tables_def
  shop_relations_def

lemma comprehension_Inr_iff:
  "comprehension f xs = Inr ys \<longleftrightarrow> map f xs = map Inr ys"
proof (induction xs arbitrary: ys)
  case Nil
  show ?case by auto
next
  case (Cons x xs)
  show ?case
  proof (cases "f x")
    case (Inl e)
    then show ?thesis by (cases ys) auto
  next
    case fx: (Inr y)
    show ?thesis
    proof (cases "comprehension f xs")
      case (Inl e)
      with fx Cons.IH show ?thesis by (cases ys) auto
    next
      case (Inr zs)
      with fx Cons.IH [of zs] Cons.IH show ?thesis by (cases ys) auto
    qed
  qed
qed

lemma comprehension_append:
  "comprehension f (xs @ ys) =
     (case comprehension f xs of
        Inl e \<Rightarrow> Inl e
      | Inr as \<Rightarrow> (case comprehension f ys of Inl e \<Rightarrow> Inl e | Inr bs \<Rightarrow> Inr (as @ bs)))"
  by (induction xs) (auto split: sum.splits)

lemma comprehension2_concat:
  "comprehension2 g f xs = comprehension f (concat (map g xs))"
  by (induction xs) (auto simp: comprehension_append split: sum.splits)

lemma format_type_cases:
  "format_type typ = (if unicode typ = Inl CompileError then Inr ''Null'' else unicode typ)"
  by (auto simp: format_type_def split: sum.splits exc.splits)

lemma relation_to_intermediary_Inr:
  "relation_to_intermediary fk = Inr r \<longleftrightarrow>
     (format_name (fullname (table (parent fk))) = Inr (left_col r) \<and>
      format_name (fullname (table (column fk))) = Inr (right_col r) \<and>
      left_cardinality r = (if nullable (parent fk) then ''*'' else ''+'') \<and>
      right_cardinality r = (if nullable (column fk) then ''?'' else ''1''))"
  by (cases r) (auto simp: relation_to_intermediary_def Let_def split: sum.splits)

lemma literal_ref: "literal ''_ref'' = [95, 114, 101, 102]"
  by (simp add: literal_def)

lemma sample_lower_ascii:
  "\<forall>c \<in> set s. c < 128 \<Longrightarrow> sample_lower s = map ascii_lower s"
  by (induction s) (auto simp: sample_lower_def sample_lower_point_def)

lemma column_to_intermediary_Inr:
  "column_to_intermediary col tf = Inr C \<longleftrightarrow>
     (tf (sqla_column.type col) = Inr (Column.type C) \<and>
      Column.name C = sqla_column.name col \<and> is_key C = primary_key col)"
  by (cases C) (auto simp: column_to_intermediary_def split: sum.splits)

lemma table_to_intermediary_Inr:
  "table_to_intermediary tbl = Inr T \<longleftrightarrow>
     (Table.name T = fullname tbl \<and>
      map (\<lambda>col. column_to_intermediary col format_type) (dict_values (c_data tbl)) =
        map Inr (columns T))"
proof
  assume "table_to_intermediary tbl = Inr T"
  then show "Table.name T = fullname tbl \<and>
      map (\<lambda>col. column_to_intermediary col format_type) (dict_values (c_data tbl)) =
        map Inr (columns T)"
    by (auto simp: table_to_intermediary_def comprehension_Inr_iff split: sum.splits)
next
  assume a: "Table.name T = fullname tbl \<and>
      map (\<lambda>col. column_to_intermediary col format_type) (dict_values (c_data tbl)) =
        map Inr (columns T)"
  then have "comprehension (\<lambda>col. column_to_intermediary col format_type)
               (dict_values (c_data tbl)) = Inr (columns T)"
    by (simp add: comprehension_Inr_iff)
  with a show "table_to_intermediary tbl = Inr T"
    by (simp add: table_to_intermediary_def)
qed

lemma metadata_to_intermediary_Inr:
  "metadata_to_intermediary md = Inr (tbls, rels) \<longleftrightarrow>
     (map table_to_intermediary (dict_values (tables md)) = map Inr tbls \<and>
      map relation_to_intermediary (concat (map foreign_keys (dict_values (tables md)))) =
        map Inr rels)"
proof
  assume "metadata_to_intermediary md = Inr (tbls, rels)"
  then show "map table_to_intermediary (dict_values (tables md)) = map Inr tbls \<and>
      map relation_to_intermediary (concat (map foreign_keys (dict_values (tables md)))) =
        map Inr rels"
    by (auto simp: metadata_to_intermediary_def comprehension_Inr_iff comprehension2_concat
             split: sum.splits)
next
  assume a: "map table_to_intermediary (dict_values (tables md)) = map Inr tbls \<and>
      map relation_to_intermediary (concat (map foreign_keys (dict_values (tables md)))) =
        map Inr rels"
  then have "comprehension table_to_intermediary (dict_values (tables md)) = Inr tbls"
    and "comprehension2 foreign_keys relation_to_intermediary (dict_values (tables md)) =
           Inr rels"
    by (simp_all add: comprehension_Inr_iff comprehension2_concat)
  then show "metadata_to_intermediary md = Inr (tbls, rels)"
    by (simp add: metadata_to_intermediary_def)
qed


section \<open>Relations\<close>

text \<open>
  C1. For every foreign key, the relation that \<^verbatim>\<open>relation_to_intermediary\<close> produces has
  left cardinality \<^verbatim>\<open>*\<close> if the parent column (the one holding the key) is nullable and
  \<^verbatim>\<open>+\<close> otherwise, and right cardinality \<^verbatim>\<open>?\<close> if the referred column is nullable and
  \<^verbatim>\<open>1\<close> otherwise. A relation is produced exactly when the string conversions of the two
  tables' full names return; in particular, when both full names are text, the relation
  with these two names and the two cardinalities above is the result.
\<close>

theorem relation_cardinality_rule:
  "(relation_to_intermediary fk = Inr r \<longrightarrow>
      left_cardinality r = (if nullable (parent fk) then ''*'' else ''+'') \<and>
      right_cardinality r = (if nullable (column fk) then ''?'' else ''1'')) \<and>
   ((\<exists>rel. relation_to_intermediary fk = Inr rel) \<longleftrightarrow>
      (\<exists>l. unicode (fullname (table (parent fk))) = Inr l) \<and>
      (\<exists>r'. unicode (fullname (table (column fk))) = Inr r')) \<and>
   (fullname (table (parent fk)) = Text l \<and> fullname (table (column fk)) = Text r' \<longrightarrow>
      relation_to_intermediary fk =
        Inr \<lparr>left_col = l, right_col = r',
             left_cardinality = (if nullable (parent fk) then ''*'' else ''+''),
             right_cardinality = (if nullable (column fk) then ''?'' else ''1'')\<rparr>)"
proof (intro conjI impI)
  assume "relation_to_intermediary fk = Inr r"
  then show "left_cardinality r = (if nullable (parent fk) then ''*'' else ''+'')"
    and "right_cardinality r = (if nullable (column fk) then ''?'' else ''1'')"
    by (simp_all add: relation_to_intermediary_Inr)
next
  show "(\<exists>rel. relation_to_intermediary fk = Inr rel) \<longleftrightarrow>
      (\<exists>l. unicode (fullname (table (parent fk))) = Inr l) \<and>
      (\<exists>r'. unicode (fullname (table (column fk))) = Inr r')"
    by (auto simp: relation_to_intermediary_def format_name_def Let_def split: sum.splits)
next
  assume "fullname (table (parent fk)) = Text l \<and> fullname (table (column fk)) = Text r'"
  then show "relation_to_intermediary fk =
        Inr \<lparr>left_col = l, right_col = r',
             left_cardinality = (if nullable (parent fk) then ''*'' else ''+''),
             right_cardinality = (if nullable (column fk) then ''?'' else ''1'')\<rparr>"
    by (simp add: relation_to_intermediary_def format_name_def Let_def)
qed

theorem relation_cardinality_rule_witness:
  "relation_to_intermediary \<lparr>parent = orders_user_id, column = users_id\<rparr> =
     Inr \<lparr>left_col = ''orders'', right_col = ''users'',
          left_cardinality = ''+'', right_cardinality = ''1''\<rparr> \<and>
   relation_to_intermediary \<lparr>parent = orders_user_id, column = users_name\<rparr> =
     Inr \<lparr>left_col = ''orders'', right_col = ''users'',
          left_cardinality = ''+'', right_cardinality = ''?''\<rparr> \<and>
   relation_to_intermediary \<lparr>parent = users_name, column = orders_id\<rparr> =
     Inr \<lparr>left_col = ''users'', right_col = ''orders'',
          left_cardinality = ''*'', right_cardinality = ''1''\<rparr> \<and>
   relation_to_intermediary \<lparr>parent = users_name, column = users_name\<rparr> =
     Inr \<lparr>left_col = ''users'', right_col = ''users'',
          left_cardinality = ''*'', right_cardinality = ''?''\<rparr> \<and>
   left_cardinality \<lparr>left_col = ''orders'', right_col = ''users'',
          left_cardinality = ''+'', right_cardinality = ''1''\<rparr> = ''+'' \<and>
   (\<nexists>rel. relation_to_intermediary
      \<lparr>parent = orders_user_id\<lparr>table := \<lparr>fullname = Obj (Inl (OtherError ''ValueError''))\<rparr>\<rparr>,
       column = users_id\<rparr> = Inr rel)"
proof -
  let ?r = "\<lparr>left_col = ''orders'', right_col = ''users'',
          left_cardinality = ''+'', right_cardinality = ''1''\<rparr>"
  have a: "relation_to_intermediary \<lparr>parent = orders_user_id, column = users_id\<rparr> = Inr ?r"
    using relation_cardinality_rule
      [of "\<lparr>parent = orders_user_id, column = users_id\<rparr>" _ "''orders''" "''users''"]
    by (simp add: shop_defs)
  have b: "relation_to_intermediary \<lparr>parent = orders_user_id, column = users_name\<rparr> =
     Inr \<lparr>left_col = ''orders'', right_col = ''users'',
          left_cardinality = ''+'', right_cardinality = ''?''\<rparr>"
    using relation_cardinality_rule
      [of "\<lparr>parent = orders_user_id, column = users_name\<rparr>" _ "''orders''" "''users''"]
    by (simp add: shop_defs)
  have c: "relation_to_intermediary \<lparr>parent = users_name, column = orders_id\<rparr> =
     Inr \<lparr>left_col = ''users'', right_col = ''orders'',
          left_cardinality = ''*'', right_cardinality = ''1''\<rparr>"
    using relation_cardinality_rule
      [of "\<lparr>parent = users_name, column = orders_id\<rparr>" _ "''users''" "''orders''"]
    by (simp add: shop_defs)
  have d: "relation_to_intermediary \<lparr>parent = users_name, column = users_name\<rparr> =
     Inr \<lparr>left_col = ''users'', right_col = ''users'',
          left_cardinality = ''*'', right_cardinality = ''?''\<rparr>"
    using relation_cardinality_rule
      [of "\<lparr>parent = users_name, column = users_name\<rparr>" _ "''users''" "''users''"]
    by (simp add: shop_defs)
  have e: "left_cardinality ?r = ''+''"
    using relation_cardinality_rule
      [of "\<lparr>parent = orders_user_id, column = users_id\<rparr>" ?r] a
    by (simp add: shop_defs)
  have f: "\<nexists>rel. relation_to_intermediary
      \<lparr>parent = orders_user_id\<lparr>table := \<lparr>fullname = Obj (Inl (OtherError ''ValueError''))\<rparr>\<rparr>,
       column = users_id\<rparr> = Inr rel"
    using relation_cardinality_rule
      [of "\<lparr>parent = orders_user_id\<lparr>table :=
              \<lparr>fullname = Obj (Inl (OtherError ''ValueError''))\<rparr>\<rparr>,
            column = users_id\<rparr>"]
    by (simp add: shop_defs)
  from a b c d e f show ?thesis by blast
qed

text \<open>
  C5. The \<open>left_col\<close> of a produced relation is the (string conversion of the) full name of
  the table that owns the parent column, and \<open>right_col\<close> that of the table that owns the
  referred column. When both full names are text a relation is produced and carries
  exactly these two texts. The names of the two columns play no part: replacing them
  leaves the outcome unchanged.
\<close>

theorem relation_endpoints_are_table_names:
  "(relation_to_intermediary fk = Inr r \<longrightarrow>
      unicode (fullname (table (parent fk))) = Inr (left_col r) \<and>
      unicode (fullname (table (column fk))) = Inr (right_col r)) \<and>
   (fullname (table (parent fk)) = Text l \<and> fullname (table (column fk)) = Text r' \<longrightarrow>
      (\<exists>rel. relation_to_intermediary fk = Inr rel \<and> left_col rel = l \<and> right_col rel = r')) \<and>
   relation_to_intermediary
      \<lparr>parent = (parent fk)\<lparr>sqla_column.name := n1\<rparr>,
       column = (column fk)\<lparr>sqla_column.name := n2\<rparr>\<rparr> = relation_to_intermediary fk"
proof (intro conjI impI)
  assume "relation_to_intermediary fk = Inr r"
  then show "unicode (fullname (table (parent fk))) = Inr (left_col r)"
    and "unicode (fullname (table (column fk))) = Inr (right_col r)"
    by (simp_all add: relation_to_intermediary_Inr format_name_def)
next
  assume "fullname (table (parent fk)) = Text l \<and> fullname (table (column fk)) = Text r'"
  then show "\<exists>rel. relation_to_intermediary fk = Inr rel \<and> left_col rel = l \<and> right_col rel = r'"
    by (simp add: relation_to_intermediary_def format_name_def)
next
  show "relation_to_intermediary
      \<lparr>parent = (parent fk)\<lparr>sqla_column.name := n1\<rparr>,
       column = (column fk)\<lparr>sqla_column.name := n2\<rparr>\<rparr> = relation_to_intermediary fk"
    by (simp add: relation_to_intermediary_def Let_def cong: sum.case_cong)
qed

theorem relation_endpoints_are_table_names_witness:
  "fullname (table (parent orders_user_fk)) = Text ''orders'' \<and>
   fullname (table (column orders_user_fk)) = Text ''users'' \<and>
   sqla_column.name (parent orders_user_fk) = Text ''user_id'' \<and>
   sqla_column.name (column orders_user_fk) = Text ''id'' \<and>
   (\<exists>rel. relation_to_intermediary orders_user_fk = Inr rel \<and>
      left_col rel = ''orders'' \<and> right_col rel = ''users'')"
proof -
  have a: "fullname (table (parent orders_user_fk)) = Text ''orders'' \<and>
           fullname (table (column orders_user_fk)) = Text ''users''"
    by (simp add: shop_defs)
  have b: "sqla_column.name (parent orders_user_fk) = Text ''user_id'' \<and>
           sqla_column.name (column orders_user_fk) = Text ''id''"
    by (simp add: shop_defs)
  from relation_endpoints_are_table_names [of orders_user_fk _ "''orders''" "''users''"] a
  have "\<exists>rel. relation_to_intermediary orders_user_fk = Inr rel \<and>
      left_col rel = ''orders'' \<and> right_col rel = ''users''"
    by blast
  with a b show ?thesis by blast
qed

text \<open>
  C9. In every produced relation the left cardinality is one of \<^verbatim>\<open>*\<close> and \<^verbatim>\<open>+\<close>, never
  \<^verbatim>\<open>?\<close> or \<^verbatim>\<open>1\<close>, and the right cardinality is one of \<^verbatim>\<open>?\<close> and \<^verbatim>\<open>1\<close>, never \<^verbatim>\<open>*\<close>
  or \<^verbatim>\<open>+\<close>.
\<close>

theorem relation_cardinality_symbols:
  "relation_to_intermediary fk = Inr r \<Longrightarrow>
     left_cardinality r \<in> {''*'', ''+''} \<and> left_cardinality r \<notin> {''?'', ''1''} \<and>
     right_cardinality r \<in> {''?'', ''1''} \<and> right_cardinality r \<notin> {''*'', ''+''}"
  by (simp add: relation_to_intermediary_Inr)

theorem relation_cardinality_symbols_witness:
  "relation_to_intermediary orders_user_fk = Inr (hd shop_relations) \<and>
   left_cardinality (hd shop_relations) \<in> {''*'', ''+''} \<and>
   left_cardinality (hd shop_relations) \<notin> {''?'', ''1''} \<and>
   right_cardinality (hd shop_relations) \<in> {''?'', ''1''} \<and>
   right_cardinality (hd shop_relations) \<notin> {''*'', ''+''}"
proof -
  have a: "relation_to_intermediary orders_user_fk = Inr (hd shop_relations)"
    by (simp add: relation_to_intermediary_def format_name_def shop_defs)
  from relation_cardinality_symbols [OF a] a show ?thesis
    by blast
qed

section \<open>Type formatting and columns\<close>

text \<open>
  C3. \<^verbatim>\<open>format_type\<close> returns the string conversion of the type object when that
  conversion returns; it returns \<^verbatim>\<open>Null\<close> when the conversion raises \<^verbatim>\<open>CompileError\<close>;
  any other exception raised by the conversion is raised by \<^verbatim>\<open>format_type\<close> too. Its
  outcome differs from that of the plain string conversion if and only if the conversion
  raises \<^verbatim>\<open>CompileError\<close>.
\<close>

theorem format_type_fallback:
  "(\<forall>s. unicode typ = Inr s \<longrightarrow> format_type typ = Inr s) \<and>
   (unicode typ = Inl CompileError \<longrightarrow> format_type typ = Inr ''Null'') \<and>
   (\<forall>m. unicode typ = Inl (OtherError m) \<longrightarrow> format_type typ = Inl (OtherError m)) \<and>
   (format_type typ \<noteq> unicode typ \<longleftrightarrow> unicode typ = Inl CompileError)"
  by (auto simp: format_type_cases)

theorem format_type_fallback_witness:
  "format_type integer_type = Inr ''INTEGER'' \<and>
   format_type (Obj (Inl CompileError)) = Inr ''Null'' \<and>
   format_type (Obj (Inl (OtherError ''ValueError''))) = Inl (OtherError ''ValueError'')"
proof -
  have "unicode integer_type = Inr ''INTEGER''"
    by (simp add: integer_type_def)
  with format_type_fallback [of integer_type]
  have a: "format_type integer_type = Inr ''INTEGER''"
    by blast
  have "unicode (Obj (Inl CompileError)) = Inl CompileError"
    by simp
  with format_type_fallback [of "Obj (Inl CompileError)"]
  have b: "format_type (Obj (Inl CompileError)) = Inr ''Null''"
    by blast
  have "unicode (Obj (Inl (OtherError ''ValueError''))) = Inl (OtherError ''ValueError'')"
    by simp
  with format_type_fallback [of "Obj (Inl (OtherError ''ValueError''))"]
  have c: "format_type (Obj (Inl (OtherError ''ValueError''))) = Inl (OtherError ''ValueError'')"
    by blast
  from a b c show ?thesis by blast
qed

text \<open>
  C4. For every column and every type formatter, the \<^verbatim>\<open>Column\<close> produced by
  \<^verbatim>\<open>column_to_intermediary\<close> has \<open>is_key\<close> equal to the column's \<open>primary_key\<close> flag and
  \<open>name\<close> equal to the column's name; a \<^verbatim>\<open>Column\<close> is produced exactly when the type
  formatter returns.
\<close>

theorem column_key_and_name:
  "(column_to_intermediary col type_formatter = Inr C \<longrightarrow>
      is_key C = primary_key col \<and> Column.name C = sqla_column.name col) \<and>
   ((\<exists>C'. column_to_intermediary col type_formatter = Inr C') \<longleftrightarrow>
    (\<exists>t. type_formatter (sqla_column.type col) = Inr t))"
  by (auto simp: column_to_intermediary_def split: sum.splits)

theorem column_key_and_name_witness:
  "column_to_intermediary users_id format_type =
     Inr \<lparr>Column.name = Text ''id'', type = ''INTEGER'', is_key = True\<rparr> \<and>
   primary_key users_id = True \<and> sqla_column.name users_id = Text ''id''"
proof -
  have a: "column_to_intermediary users_id format_type =
     Inr \<lparr>Column.name = Text ''id'', type = ''INTEGER'', is_key = True\<rparr>"
    by (simp add: column_to_intermediary_def format_type_def shop_defs)
  from column_key_and_name
    [of users_id format_type "\<lparr>Column.name = Text ''id'', type = ''INTEGER'', is_key = True\<rparr>"] a
  show ?thesis by simp
qed

text \<open>
  C7, as the code has it. The two endpoint names of a produced relation are string
  conversions of the tables' full names, and the type of a column produced with the
  default formatter is the string that \<^verbatim>\<open>format_type\<close> returned; the name of a produced
  column is the source column's name, passed on as it is without a conversion (so it is
  text when the source name is). When the string conversion of the type raises
  \<^verbatim>\<open>CompileError\<close> the column is produced with type \<^verbatim>\<open>Null\<close>; any other exception raised
  by that conversion is raised by \<^verbatim>\<open>column_to_intermediary\<close>.
\<close>

theorem rendering_of_names_and_types:
  "(relation_to_intermediary fk = Inr r \<longrightarrow>
      unicode (fullname (table (parent fk))) = Inr (left_col r) \<and>
      unicode (fullname (table (column fk))) = Inr (right_col r)) \<and>
   (column_to_intermediary col format_type = Inr C \<longrightarrow>
      Column.name C = sqla_column.name col \<and>
      (is_text (sqla_column.name col) \<longrightarrow> is_text (Column.name C)) \<and>
      format_type (sqla_column.type col) = Inr (Column.type C)) \<and>
   (unicode (sqla_column.type col) = Inl CompileError \<longrightarrow>
      column_to_intermediary col format_type =
        Inr \<lparr>Column.name = sqla_column.name col, type = ''Null'', is_key = primary_key col\<rparr>) \<and>
   (\<forall>m. unicode (sqla_column.type col) = Inl (OtherError m) \<longrightarrow>
      column_to_intermediary col format_type = Inl (OtherError m))"
proof (intro conjI impI allI)
  assume "relation_to_intermediary fk = Inr r"
  then show "unicode (fullname (table (parent fk))) = Inr (left_col r)"
    and "unicode (fullname (table (column fk))) = Inr (right_col r)"
    by (simp_all add: relation_to_intermediary_Inr format_name_def)
next
  assume c: "column_to_intermediary col format_type = Inr C"
  then show n: "Column.name C = sqla_column.name col"
    and "format_type (sqla_column.type col) = Inr (Column.type C)"
    by (simp_all add: column_to_intermediary_Inr)
  assume "is_text (sqla_column.name col)"
  with n show "is_text (Column.name C)" by simp
next
  assume "unicode (sqla_column.type col) = Inl CompileError"
  then show "column_to_intermediary col format_type =
        Inr \<lparr>Column.name = sqla_column.name col, type = ''Null'', is_key = primary_key col\<rparr>"
    by (simp add: column_to_intermediary_def format_type_cases)
next
  fix m
  assume "unicode (sqla_column.type col) = Inl (OtherError m)"
  then show "column_to_intermediary col format_type = Inl (OtherError m)"
    by (simp add: column_to_intermediary_def format_type_cases)
qed

theorem rendering_of_names_and_types_witness:
  "relation_to_intermediary orders_user_fk = Inr (hd shop_relations) \<and>
   unicode (fullname (table (parent orders_user_fk))) = Inr (left_col (hd shop_relations)) \<and>
   unicode (sqla_column.type (users_id\<lparr>sqla_column.type := Obj (Inl CompileError)\<rparr>)) =
     Inl CompileError \<and>
   column_to_intermediary (users_id\<lparr>sqla_column.type := Obj (Inl CompileError)\<rparr>) format_type =
     Inr \<lparr>Column.name = Text ''id'', type = ''Null'', is_key = True\<rparr> \<and>
   unicode (sqla_column.type
      (users_id\<lparr>sqla_column.type := Obj (Inl (OtherError ''ValueError''))\<rparr>)) =
     Inl (OtherError ''ValueError'') \<and>
   column_to_intermediary
      (users_id\<lparr>sqla_column.type := Obj (Inl (OtherError ''ValueError''))\<rparr>) format_type =
     Inl (OtherError ''ValueError'') \<and>
   column_to_intermediary users_id format_type =
     Inr \<lparr>Column.name = Text ''id'', type = ''INTEGER'', is_key = True\<rparr> \<and>
   is_text (sqla_column.name users_id) \<and>
   is_text (Column.name \<lparr>Column.name = Text ''id'', type = ''INTEGER'', is_key = True\<rparr>)"
proof -
  let ?col = "users_id\<lparr>sqla_column.type := Obj (Inl CompileError)\<rparr>"
  let ?bad = "users_id\<lparr>sqla_column.type := Obj (Inl (OtherError ''ValueError''))\<rparr>"
  let ?C = "\<lparr>Column.name = Text ''id'', type = ''INTEGER'', is_key = True\<rparr>"
  have a: "relation_to_intermediary orders_user_fk = Inr (hd shop_relations)"
    by (simp add: relation_to_intermediary_def format_name_def shop_defs)
  have b: "unicode (sqla_column.type ?col) = Inl CompileError"
    by simp
  have b': "unicode (sqla_column.type ?bad) = Inl (OtherError ''ValueError'')"
    by simp
  have n: "sqla_column.name ?col = Text ''id''" and k: "primary_key ?col = True"
    by (simp_all add: users_id_def)
  have g: "column_to_intermediary users_id format_type = Inr ?C"
    by (simp add: column_to_intermediary_def format_type_def shop_defs)
  have t: "is_text (sqla_column.name users_id)"
    by (simp add: users_id_def)
  from rendering_of_names_and_types [of orders_user_fk "hd shop_relations" ?col] a
  have c: "unicode (fullname (table (parent orders_user_fk))) =
      Inr (left_col (hd shop_relations))"
    by blast
  from rendering_of_names_and_types [of orders_user_fk "hd shop_relations" ?col] b
  have "column_to_intermediary ?col format_type =
      Inr \<lparr>Column.name = sqla_column.name ?col, type = ''Null'', is_key = primary_key ?col\<rparr>"
    by blast
  then have d: "column_to_intermediary ?col format_type =
      Inr \<lparr>Column.name = Text ''id'', type = ''Null'', is_key = True\<rparr>"
    by (simp only: n k)
  from rendering_of_names_and_types [of orders_user_fk "hd shop_relations" ?bad] b'
  have e: "column_to_intermediary ?bad format_type = Inl (OtherError ''ValueError'')"
    by blast
  from rendering_of_names_and_types [of orders_user_fk "hd shop_relations" users_id ?C] g t
  have f: "is_text (Column.name ?C)"
    by blast
  from a b b' c d e f g t show ?thesis by blast
qed

text \<open>
  C7, as stated, fails. A column whose type object raises an exception other than
  \<^verbatim>\<open>CompileError\<close> on string conversion is not translated: the exception leaves
  \<^verbatim>\<open>column_to_intermediary\<close>, and no \<^verbatim>\<open>Null\<close> is substituted. And a column whose name is
  not text (\<^verbatim>\<open>None\<close>, the name of a column that was given none) yields a \<^verbatim>\<open>Column\<close>
  whose name is that same object, not a text.
\<close>

theorem rendering_never_raises_counterexample:
  "column_to_intermediary
     \<lparr>sqla_column.name = Text ''geom'',
      type = Obj (Inl (OtherError ''NotImplementedError'')),
      nullable = True, primary_key = False,
      table = \<lparr>fullname = Text ''places''\<rparr>\<rparr> format_type
     = Inl (OtherError ''NotImplementedError'') \<and>
   column_to_intermediary
     \<lparr>sqla_column.name = Obj (Inr ''None''),
      type = Obj (Inr ''INTEGER''),
      nullable = True, primary_key = False,
      table = \<lparr>fullname = Text ''places''\<rparr>\<rparr> format_type
     = Inr \<lparr>Column.name = Obj (Inr ''None''), type = ''INTEGER'', is_key = False\<rparr> \<and>
   \<not> is_text (Obj (Inr ''None''))"
  by (simp add: column_to_intermediary_def format_type_def)

section \<open>Tables and metadata\<close>

text \<open>
  C6. \<^verbatim>\<open>table_to_intermediary\<close> produces the table \<open>T\<close> exactly when the name of \<open>T\<close> is
  the full name of the source table, \<open>T\<close> has as many columns as the source table
  declares, and the column of \<open>T\<close> at each position is the translation (with the default
  formatter) of the source column at the same position.
\<close>

theorem table_name_and_columns:
  "table_to_intermediary tbl = Inr T \<longleftrightarrow>
     Table.name T = fullname tbl \<and>
     length (columns T) = length (dict_values (c_data tbl)) \<and>
     (\<forall>i < length (columns T).
        column_to_intermediary (dict_values (c_data tbl) ! i) format_type = Inr (columns T ! i))"
proof -
  have "map (\<lambda>col. column_to_intermediary col format_type) (dict_values (c_data tbl)) =
          map Inr (columns T) \<longleftrightarrow>
        length (columns T) = length (dict_values (c_data tbl)) \<and>
        (\<forall>i < length (columns T).
           column_to_intermediary (dict_values (c_data tbl) ! i) format_type =
             Inr (columns T ! i))"
    by (auto simp: list_eq_iff_nth_eq)
  then show ?thesis
    by (simp add: table_to_intermediary_Inr)
qed

theorem table_name_and_columns_witness:
  "table_to_intermediary orders_table = Inr orders_translated \<and>
   Table.name orders_translated = Text ''orders'' \<and>
   length (columns orders_translated) = 2 \<and>
   map Column.name (columns orders_translated) = [Text ''id'', Text ''user_id'']"
proof -
  have c: "columns orders_translated =
      [\<lparr>Column.name = Text ''id'', type = ''INTEGER'', is_key = True\<rparr>,
       \<lparr>Column.name = Text ''user_id'', type = ''INTEGER'', is_key = False\<rparr>]"
    and n: "Table.name orders_translated = Text ''orders''"
    by (simp_all add: orders_translated_def)
  have d: "dict_values (c_data orders_table) = [orders_id, orders_user_id]"
    and f: "fullname orders_table = Text ''orders''"
    by (simp_all add: orders_table_def dict_values_def)
  have e: "column_to_intermediary orders_id format_type =
             Inr \<lparr>Column.name = Text ''id'', type = ''INTEGER'', is_key = True\<rparr>"
    "column_to_intermediary orders_user_id format_type =
             Inr \<lparr>Column.name = Text ''user_id'', type = ''INTEGER'', is_key = False\<rparr>"
    by (simp_all add: column_to_intermediary_def format_type_def shop_defs)
  have "\<forall>i < length (columns orders_translated).
          column_to_intermediary (dict_values (c_data orders_table) ! i) format_type =
            Inr (columns orders_translated ! i)"
    by (simp add: c d e All_less_Suc numeral_2_eq_2)
  with table_name_and_columns [of orders_table orders_translated] n f c d
  have "table_to_intermediary orders_table = Inr orders_translated"
    by simp
  with c n show ?thesis by simp
qed

text \<open>
  C2. \<^verbatim>\<open>metadata_to_intermediary\<close> returns the pair \<open>(tbls, rels)\<close> exactly when \<open>tbls\<close> is
  the sequence of the translations of the tables, in the iteration order of
  \<^verbatim>\<open>metadata.tables\<close>, and \<open>rels\<close> is the sequence of the translations of all foreign keys,
  table after table in the same order and within a table in the order of its
  \<^verbatim>\<open>foreign_keys\<close>. With no tables the result is the pair of two empty lists.
\<close>

theorem metadata_to_intermediary_sequences:
  "(metadata_to_intermediary md = Inr (tbls, rels) \<longleftrightarrow>
      map table_to_intermediary (dict_values (tables md)) = map Inr tbls \<and>
      map relation_to_intermediary (concat (map foreign_keys (dict_values (tables md)))) =
        map Inr rels) \<and>
   (tables md = [] \<longrightarrow> metadata_to_intermediary md = Inr ([], []))"
proof
  show "metadata_to_intermediary md = Inr (tbls, rels) \<longleftrightarrow>
      map table_to_intermediary (dict_values (tables md)) = map Inr tbls \<and>
      map relation_to_intermediary (concat (map foreign_keys (dict_values (tables md)))) =
        map Inr rels"
    by (rule metadata_to_intermediary_Inr)
  show "tables md = [] \<longrightarrow> metadata_to_intermediary md = Inr ([], [])"
    by (simp add: metadata_to_intermediary_def dict_values_def)
qed

theorem metadata_to_intermediary_sequences_witness:
  "metadata_to_intermediary shop_metadata = Inr (shop_tables, shop_relations) \<and>
   tables \<lparr>tables = []\<rparr> = [] \<and>
   metadata_to_intermediary \<lparr>tables = []\<rparr> = Inr ([], [])"
proof -
  have t: "map table_to_intermediary (dict_values (tables shop_metadata)) = map Inr shop_tables"
    by (simp add: shop_defs dict_values_def table_to_intermediary_def
        column_to_intermediary_def format_type_def)
  have r: "map relation_to_intermediary
             (concat (map foreign_keys (dict_values (tables shop_metadata)))) =
           map Inr shop_relations"
    by (simp add: shop_defs dict_values_def relation_to_intermediary_def format_name_def)
  from metadata_to_intermediary_sequences [of shop_metadata shop_tables shop_relations] t r
  have "metadata_to_intermediary shop_metadata = Inr (shop_tables, shop_relations)"
    by blast
  moreover
  from metadata_to_intermediary_sequences [of "\<lparr>tables = []\<rparr>" "[]" "[]"]
  have "metadata_to_intermediary \<lparr>tables = []\<rparr> = Inr ([], [])"
    by simp
  ultimately show ?thesis by simp
qed

text \<open>
  C8. \<^verbatim>\<open>declarative_to_intermediary\<close> applied to a declarative base has the very outcome
  (the same pair, or the same exception) of \<^verbatim>\<open>metadata_to_intermediary\<close> applied to the
  base's metadata.
\<close>

theorem declarative_is_metadata:
  "declarative_to_intermediary base = metadata_to_intermediary (metadata base)"
  by (simp add: declarative_to_intermediary_def)

section \<open>Naming of reflected relationships\<close>

text \<open>
  C10. \<^verbatim>\<open>name_for_scalar_relationship\<close> returns the lowercased name of the referred
  class (what \<^verbatim>\<open>str.lower\<close> returns for it) followed by \<^verbatim>\<open>_ref\<close>, whatever the base, the
  local class and the constraint are. When the class name has ASCII code points only,
  where \<^verbatim>\<open>str.lower\<close> moves the capital letters to the small ones and keeps the rest, the
  result is the name with each code point so lowered, followed by the four code points
  of \<^verbatim>\<open>_ref\<close>.
\<close>

theorem name_for_scalar_relationship_lower_ref:
  "name_for_scalar_relationship str_lower base local_cls referred_cls constraint =
     str_lower (cls_name referred_cls) @ literal ''_ref'' \<and>
   name_for_scalar_relationship str_lower base' local_cls' referred_cls constraint' =
     name_for_scalar_relationship str_lower base local_cls referred_cls constraint \<and>
   ((\<forall>s. (\<forall>c \<in> set s. c < 128) \<longrightarrow> str_lower s = map ascii_lower s) \<and>
    (\<forall>c \<in> set (cls_name referred_cls). c < 128) \<longrightarrow>
      name_for_scalar_relationship str_lower base local_cls referred_cls constraint =
        map ascii_lower (cls_name referred_cls) @ [95, 114, 101, 102])"
  by (simp add: name_for_scalar_relationship_def literal_ref)

theorem name_for_scalar_relationship_lower_ref_witness:
  "name_for_scalar_relationship sample_lower (0::nat)
      \<lparr>cls_name = literal ''Orders''\<rparr> \<lparr>cls_name = literal ''UserAccount''\<rparr> (1::nat) =
     literal ''useraccount_ref'' \<and>
   name_for_scalar_relationship sample_lower (0::nat)
      \<lparr>cls_name = literal ''Orders''\<rparr> \<lparr>cls_name = [201, 67, 79, 76, 69]\<rparr> (1::nat) =
     [233, 99, 111, 108, 101] @ literal ''_ref'' \<and>
   name_for_scalar_relationship sample_lower (0::nat)
      \<lparr>cls_name = literal ''Orders''\<rparr> \<lparr>cls_name = 304 # literal ''stanbul''\<rparr> (1::nat) =
     [105, 775] @ literal ''stanbul_ref''"
proof -
  let ?user = "\<lparr>cls_name = literal ''UserAccount''\<rparr>"
  let ?orders = "\<lparr>cls_name = literal ''Orders''\<rparr>"
  have ascii: "\<forall>c \<in> set (cls_name ?user). c < 128"
    by (simp add: literal_def)
  have low: "\<forall>s. (\<forall>c \<in> set s. c < 128) \<longrightarrow> sample_lower s = map ascii_lower s"
    by (simp add: sample_lower_ascii)
  from name_for_scalar_relationship_lower_ref
    [of sample_lower "0::nat" ?orders ?user "1::nat" "0::nat" ?orders "1::nat"] low ascii
  have "name_for_scalar_relationship sample_lower (0::nat) ?orders ?user (1::nat) =
      map ascii_lower (cls_name ?user) @ [95, 114, 101, 102]"
    by blast
  then have a: "name_for_scalar_relationship sample_lower (0::nat) ?orders ?user (1::nat) =
      literal ''useraccount_ref''"
    by (simp add: literal_def ascii_lower_def)
  from name_for_scalar_relationship_lower_ref
    [of sample_lower "0::nat" ?orders "\<lparr>cls_name = [201, 67, 79, 76, 69]\<rparr>" "1::nat"
        "0::nat" ?orders "1::nat"]
  have b: "name_for_scalar_relationship sample_lower (0::nat) ?orders
      \<lparr>cls_name = [201, 67, 79, 76, 69]\<rparr> (1::nat) = [233, 99, 111, 108, 101] @ literal ''_ref''"
    by (simp add: sample_lower_def sample_lower_point_def ascii_lower_def)
  from name_for_scalar_relationship_lower_ref
    [of sample_lower "0::nat" ?orders "\<lparr>cls_name = 304 # literal ''stanbul''\<rparr>" "1::nat"
        "0::nat" ?orders "1::nat"]
  have c: "name_for_scalar_relationship sample_lower (0::nat) ?orders
      \<lparr>cls_name = 304 # literal ''stanbul''\<rparr> (1::nat) = [105, 775] @ literal ''stanbul_ref''"
    by (simp add: sample_lower_def sample_lower_point_def ascii_lower_def literal_def)
  from a b c show ?thesis by blast
qed

end
